theory Spec2Isabelle
  imports Complex_Main
begin

section \<open>Python values\<close>

text \<open>
  The HTTP bridge and the demonstration agent both handle decoded JSON. A decoded JSON
  document is a Python value: \<^verbatim>\<open>None\<close>, a \<^verbatim>\<open>bool\<close>, an \<^verbatim>\<open>int\<close>, a
  \<^verbatim>\<open>float\<close>, a \<^verbatim>\<open>str\<close>, a \<^verbatim>\<open>list\<close> or a \<^verbatim>\<open>dict\<close> with string keys.
  A dict keeps the order of its keys, so it is an association list here; a decoded dict
  has no key twice. A float is the real number it denotes, or one of the three special
  values the decoder also gives (\<^verbatim>\<open>1e400\<close> decodes to infinity).

  A Python \<^verbatim>\<open>str\<close> is a sequence of code points, and the decoder lets a lone
  surrogate such as \<^verbatim>\<open>"\ud800"\<close> through. So a \<^verbatim>\<open>str\<close> is a list of numbers, and \<open>str\<close>
  makes one from the text of a literal.
\<close>

type_synonym pystr = "nat list"

definition str :: "string \<Rightarrow> pystr" where
  "str cs = map of_char cs"

datatype pyfloat = Finite real | PosInf | NegInf | NaN

datatype json =
    JNull
  | JBool bool
  | JInt int
  | JFloat pyfloat
  | JStr pystr
  | JList "json list"
  | JObj "(pystr \<times> json) list"

text \<open>Truth value testing, as \<^verbatim>\<open>if not x\<close> performs it.\<close>

fun truthy :: "json \<Rightarrow> bool" where
  "truthy JNull = False"
| "truthy (JBool b) = b"
| "truthy (JInt i) = (i \<noteq> 0)"
| "truthy (JFloat f) = (f \<noteq> Finite 0)"
| "truthy (JStr s) = (s \<noteq> [])"
| "truthy (JList xs) = (xs \<noteq> [])"
| "truthy (JObj kvs) = (kvs \<noteq> [])"

text \<open>The name \<^verbatim>\<open>type(x).__name__\<close> that an error message shows.\<close>

fun type_name :: "json \<Rightarrow> string" where
  "type_name JNull = ''NoneType''"
| "type_name (JBool b) = ''bool''"
| "type_name (JInt i) = ''int''"
| "type_name (JFloat f) = ''float''"
| "type_name (JStr s) = ''str''"
| "type_name (JList xs) = ''list''"
| "type_name (JObj kvs) = ''dict''"

text \<open>
  The exceptions the bridge meets, all derived from \<^verbatim>\<open>Exception\<close>: the one an
  attribute lookup raises; \<^verbatim>\<open>ValueError\<close>, which rendering a response body raises
  (\<^verbatim>\<open>UnicodeEncodeError\<close> is one), with its text, which is ASCII; and \<open>Raised msg\<close> for
  any exception that comes out of the HTTP client or a tool, whose \<^verbatim>\<open>str\<close> is \<open>msg\<close>.
\<close>

datatype exn =
    AttributeError string string
  | ValueError string
  | Raised pystr

definition quote :: "string \<Rightarrow> string" where
  "quote s = [CHR 0x27] @ s @ [CHR 0x27]"

fun str_exn :: "exn \<Rightarrow> pystr" where
  "str_exn (AttributeError t a) = str (quote t @ '' object has no attribute '' @ quote a)"
| "str_exn (ValueError m) = str m"
| "str_exn (Raised m) = m"

text \<open>
  \<^verbatim>\<open>x.get(k, d)\<close> and \<^verbatim>\<open>x.items()\<close>: only a dict has these attributes; on any other
  value the attribute lookup raises.
\<close>

definition dict_get :: "(pystr \<times> json) list \<Rightarrow> pystr \<Rightarrow> json \<Rightarrow> json" where
  "dict_get kvs k d = (case map_of kvs k of None \<Rightarrow> d | Some v \<Rightarrow> v)"

fun py_get :: "json \<Rightarrow> pystr \<Rightarrow> json \<Rightarrow> exn + json" where
  "py_get (JObj kvs) k d = Inr (dict_get kvs k d)"
| "py_get v k d = Inl (AttributeError (type_name v) ''get'')"

fun py_items :: "json \<Rightarrow> exn + (pystr \<times> json) list" where
  "py_items (JObj kvs) = Inr kvs"
| "py_items v = Inl (AttributeError (type_name v) ''items'')"

text \<open>Sequencing of steps that may raise: the first exception ends the sequence.\<close>

definition and_then :: "exn + 'a \<Rightarrow> ('a \<Rightarrow> exn + 'b) \<Rightarrow> exn + 'b" where
  "and_then m f = (case m of Inl x \<Rightarrow> Inl x | Inr a \<Rightarrow> f a)"

text \<open>The comprehension \<^verbatim>\<open>{k: v for k, v in params.items() if k not in ks}\<close>.\<close>

definition without :: "pystr list \<Rightarrow> (pystr \<times> json) list \<Rightarrow> (pystr \<times> json) list" where
  "without ks kvs = filter (\<lambda>(k, v). k \<notin> set ks) kvs"

section \<open>Rendering a response body\<close>

text \<open>
  \<^verbatim>\<open>JSONResponse(status_code=..., content=...)\<close> renders its content when it is
  constructed: \<^verbatim>\<open>json.dumps(content, ensure_ascii=False, allow_nan=False, ...)\<close> and then
  \<^verbatim>\<open>.encode("utf-8")\<close>. The first raises \<^verbatim>\<open>ValueError\<close> when the content holds a float
  that is not finite; the second raises \<^verbatim>\<open>UnicodeEncodeError\<close> when a string or a key
  of the content holds a surrogate code point.
\<close>

definition surrogate :: "nat \<Rightarrow> bool" where
  "surrogate c = (55296 \<le> c \<and> c \<le> 57343)"

definition encodable :: "pystr \<Rightarrow> bool" where
  "encodable s = list_all (\<lambda>c. \<not> surrogate c) s"

fun finite_floats :: "json \<Rightarrow> bool" where
  "finite_floats JNull = True"
| "finite_floats (JBool b) = True"
| "finite_floats (JInt i) = True"
| "finite_floats (JFloat f) = (case f of Finite r \<Rightarrow> True | _ \<Rightarrow> False)"
| "finite_floats (JStr s) = True"
| "finite_floats (JList xs) = list_all finite_floats xs"
| "finite_floats (JObj kvs) = list_all finite_floats (map snd kvs)"

fun encodable_strings :: "json \<Rightarrow> bool" where
  "encodable_strings JNull = True"
| "encodable_strings (JBool b) = True"
| "encodable_strings (JInt i) = True"
| "encodable_strings (JFloat f) = True"
| "encodable_strings (JStr s) = encodable s"
| "encodable_strings (JList xs) = list_all encodable_strings xs"
| "encodable_strings (JObj kvs) =
     (list_all encodable (map fst kvs) \<and> list_all encodable_strings (map snd kvs))"

definition renderable :: "json \<Rightarrow> bool" where
  "renderable c = (finite_floats c \<and> encodable_strings c)"

section \<open>The HTTP bridge that forwards to REST endpoints\<close>

text \<open>
  File \<^verbatim>\<open>ARCHON/python/src/mcp_server/http_bridge.py\<close>. What the handler reaches
  outside itself is a parameter: the process environment, the HTTP client, and the
  library functions that turn a value into text. \<open>send\<close> is one outbound request
  together with \<^verbatim>\<open>raise_for_status()\<close> and \<^verbatim>\<open>response.json()\<close>: it returns the decoded
  body or the exception one of the three raised. \<open>dumps\<close> is \<^verbatim>\<open>json.dumps\<close> with its
  defaults, whose output is ASCII. \<open>render_text\<close> is the text of the exception that
  rendering a body raises. Logging is not modelled.

  The second bridge, \<^verbatim>\<open>python/src/mcp_server/http_bridge.py\<close>, calls tool functions
  of modules that are imported by name. A call of one of them is a \<open>tool_call\<close> with
  the arguments the bridge passes, \<open>invoke\<close> is what awaiting the tool gives, and
  \<open>make_context\<close> is the exception that building the two context objects raises, if any.
\<close>

datatype http_call =
    Post pystr json
  | Get pystr
  | Patch pystr json

datatype tool_call =
    Rag_search_knowledge_base json json json
  | Rag_get_available_sources
  | Rag_search_code_examples json json json
  | Manage_project json "(pystr \<times> json) list"
  | Manage_document json json "(pystr \<times> json) list"
  | Manage_task json json "(pystr \<times> json) list"

record env =
  getenv :: "string \<Rightarrow> pystr option"
  send :: "http_call \<Rightarrow> exn + json"
  dumps :: "json \<Rightarrow> string"
  py_str :: "json \<Rightarrow> pystr"
  render_text :: "json \<Rightarrow> string"
  make_context :: "exn option"
  invoke :: "tool_call \<Rightarrow> exn + json"

text \<open>
  What the handler gives back: a plain dict, which the framework serialises after the
  handler has returned, or a response object with a status code that the handler built
  itself. \<open>served\<close> is the status and body that go out: a returned dict goes out with
  status 200 when it renders; when it does not, the framework answers on its own.
\<close>

datatype reply =
    Returned (content: json)
  | JSONResponse (status_code: nat) (content: json)

definition served :: "reply \<Rightarrow> (nat \<times> json) option" where
  "served r =
     (case r of
        Returned d \<Rightarrow> (if renderable d then Some (200, d) else None)
      | JSONResponse status c \<Rightarrow> Some (status, c))"

text \<open>The construction of a response object, which renders the body.\<close>

definition json_response :: "env \<Rightarrow> nat \<Rightarrow> json \<Rightarrow> exn + reply" where
  "json_response e status c =
     (if renderable c then Inr (JSONResponse status c)
      else Inl (ValueError (render_text e c)))"

text \<open>\<^verbatim>\<open>os.getenv(name, default)\<close>.\<close>

definition os_getenv :: "env \<Rightarrow> string \<Rightarrow> pystr \<Rightarrow> pystr" where
  "os_getenv e name d = (case getenv e name of None \<Rightarrow> d | Some v \<Rightarrow> v)"

text \<open>A value inside an f-string: a \<^verbatim>\<open>str\<close> stands for itself.\<close>

definition fmt :: "env \<Rightarrow> json \<Rightarrow> pystr" where
  "fmt e v = (case v of JStr s \<Rightarrow> s | _ \<Rightarrow> py_str e v)"

definition success_envelope :: "json \<Rightarrow> json \<Rightarrow> json" where
  "success_envelope request_id result =
     JObj [(str ''jsonrpc'', JStr (str ''2.0'')), (str ''id'', request_id),
           (str ''result'', result)]"

definition error_envelope :: "json \<Rightarrow> int \<Rightarrow> pystr \<Rightarrow> json" where
  "error_envelope request_id code message =
     JObj [(str ''jsonrpc'', JStr (str ''2.0'')), (str ''id'', request_id),
           (str ''error'', JObj [(str ''code'', JInt code), (str ''message'', JStr message)])]"

definition internal_error_envelope :: json where
  "internal_error_envelope =
     JObj [(str ''jsonrpc'', JStr (str ''2.0'')),
           (str ''error'', JObj [(str ''code'', JInt (- 32603)),
                                 (str ''message'', JStr (str ''Internal server error''))])]"

definition not_found_message :: "env \<Rightarrow> json \<Rightarrow> pystr" where
  "not_found_message e method =
     str (''Method '' @ [CHR 0x27]) @ fmt e method @ str ([CHR 0x27] @ '' not found'')"

definition server_url :: "env \<Rightarrow> pystr" where
  "server_url e =
     str ''http://archon-server:'' @ os_getenv e ''ARCHON_SERVER_PORT'' (str ''8181'')"

text \<open>
  The tail every branch shares: the arguments of the outbound call are evaluated (which
  may raise before anything is sent), the call is made, and its decoded result is
  serialised again into the success envelope, a plain dict.
\<close>

definition perform :: "env \<Rightarrow> json \<Rightarrow> exn + http_call \<Rightarrow> http_call list \<times> (exn + reply)" where
  "perform e request_id prepared =
     (case prepared of
        Inl x \<Rightarrow> ([], Inl x)
      | Inr c \<Rightarrow>
          ([c],
           case send e c of
             Inl x \<Rightarrow> Inl x
           | Inr result \<Rightarrow>
               Inr (Returned (success_envelope request_id (JStr (str (dumps e result)))))))"

definition rag_query_call :: "env \<Rightarrow> json \<Rightarrow> exn + http_call" where
  "rag_query_call e params =
     and_then (py_get params (str ''query'') (JStr [])) (\<lambda>query.
     and_then (py_get params (str ''source'') JNull) (\<lambda>source.
     and_then (py_get params (str ''match_count'') (JInt 5)) (\<lambda>match_count.
       Inr (Post (server_url e @ str ''/api/rag/query'')
              (JObj [(str ''query'', query), (str ''source_id'', source),
                     (str ''match_count'', match_count)])))))"

definition code_examples_call :: "env \<Rightarrow> json \<Rightarrow> exn + http_call" where
  "code_examples_call e params =
     and_then (py_get params (str ''query'') (JStr [])) (\<lambda>query.
     and_then (py_get params (str ''source_id'') JNull) (\<lambda>source_id.
     and_then (py_get params (str ''match_count'') (JInt 5)) (\<lambda>match_count.
       Inr (Post (server_url e @ str ''/api/rag/code-examples'')
              (JObj [(str ''query'', query), (str ''source_id'', source_id),
                     (str ''match_count'', match_count)])))))"

definition manage_project_call :: "env \<Rightarrow> json \<Rightarrow> exn + http_call" where
  "manage_project_call e params =
     and_then (py_get params (str ''action'') JNull) (\<lambda>action.
       if action = JStr (str ''create'') then
         and_then (py_items params) (\<lambda>items.
           Inr (Post (server_url e @ str ''/api/projects'')
                  (JObj (without [str ''action''] items))))
       else if action = JStr (str ''get'') then
         and_then (py_get params (str ''project_id'') JNull) (\<lambda>project_id.
           Inr (Get (server_url e @ str ''/api/projects/'' @ fmt e project_id)))
       else
         and_then (py_get params (str ''project_id'') (JStr [])) (\<lambda>project_id.
         and_then (py_items params) (\<lambda>items.
           Inr (Patch (server_url e @ str ''/api/projects/'' @ fmt e project_id)
                  (JObj (without [str ''action''] items))))))"

definition manage_task_call :: "env \<Rightarrow> json \<Rightarrow> exn + http_call" where
  "manage_task_call e params =
     and_then (py_get params (str ''action'') JNull) (\<lambda>action.
     and_then (py_get params (str ''project_id'') (JStr [])) (\<lambda>project_id.
       if action = JStr (str ''create'') then
         and_then (py_items params) (\<lambda>items.
           Inr (Post (server_url e @ str ''/api/projects/'' @ fmt e project_id
                        @ str ''/tasks'')
                  (JObj (without [str ''action'', str ''project_id''] items))))
       else
         and_then (py_get params (str ''task_id'') (JStr [])) (\<lambda>task_id.
         and_then (py_items params) (\<lambda>items.
           Inr (Patch (server_url e @ str ''/api/projects/'' @ fmt e project_id
                         @ str ''/tasks/'' @ fmt e task_id)
                  (JObj (without [str ''action'', str ''project_id'', str ''task_id'']
                           items)))))))"

definition manage_document_call :: "env \<Rightarrow> json \<Rightarrow> exn + http_call" where
  "manage_document_call e params =
     and_then (py_get params (str ''action'') JNull) (\<lambda>action.
     and_then (py_get params (str ''project_id'') (JStr [])) (\<lambda>project_id.
       if action = JStr (str ''create'') then
         and_then (py_items params) (\<lambda>items.
           Inr (Post (server_url e @ str ''/api/projects/'' @ fmt e project_id
                        @ str ''/documents'')
                  (JObj (without [str ''action'', str ''project_id''] items))))
       else
         and_then (py_get params (str ''doc_id'') (JStr [])) (\<lambda>doc_id.
         and_then (py_items params) (\<lambda>items.
           Inr (Patch (server_url e @ str ''/api/projects/'' @ fmt e project_id
                         @ str ''/documents/'' @ fmt e doc_id)
                  (JObj (without [str ''action'', str ''project_id'', str ''doc_id'']
                           items)))))))"

text \<open>
  The body of the inner \<^verbatim>\<open>try\<close>: the chain of comparisons on the method name. The
  result is the list of outbound calls made, and either what is returned or the
  exception that left the body. In the last branch the 404 response is constructed
  inside the \<^verbatim>\<open>try\<close>, so an exception of its rendering leaves the body too.
\<close>

definition dispatch :: "env \<Rightarrow> json \<Rightarrow> json \<Rightarrow> json \<Rightarrow> http_call list \<times> (exn + reply)" where
  "dispatch e method params request_id =
     (if method = JStr (str ''perform_rag_query'') then
        perform e request_id (rag_query_call e params)
      else if method = JStr (str ''get_available_sources'') then
        perform e request_id (Inr (Get (server_url e @ str ''/api/rag/sources'')))
      else if method = JStr (str ''search_code_examples'') then
        perform e request_id (code_examples_call e params)
      else if method = JStr (str ''manage_project'') then
        perform e request_id (manage_project_call e params)
      else if method = JStr (str ''manage_task'') then
        perform e request_id (manage_task_call e params)
      else if method = JStr (str ''manage_document'') then
        perform e request_id (manage_document_call e params)
      else
        ([], json_response e 404
               (error_envelope request_id (- 32601) (not_found_message e method))))"

text \<open>
  The body of the outer \<^verbatim>\<open>try\<close>. The framework hands the handler a dict (the route
  declares \<^verbatim>\<open>request: dict\<close>, and any other body is refused before the handler runs), so
  reading the three keys cannot raise. What can raise here is the construction of the
  400 response and, inside the handler of the inner \<^verbatim>\<open>try\<close>, the construction of the
  500 response that carries the exception's text.
\<close>

definition outer_try :: "env \<Rightarrow> (pystr \<times> json) list \<Rightarrow> http_call list \<times> (exn + reply)" where
  "outer_try e request =
     (let method = dict_get request (str ''method'') JNull;
          params = dict_get request (str ''params'') (JObj []);
          request_id = dict_get request (str ''id'') (JInt 1)
      in if \<not> truthy method then
           ([], json_response e 400
                  (error_envelope request_id (- 32600) (str ''Method not specified'')))
         else
           (case dispatch e method params request_id of
              (calls, Inr response) \<Rightarrow> (calls, Inr response)
            | (calls, Inl tool_error) \<Rightarrow>
                (calls, json_response e 500
                          (error_envelope request_id (- 32603) (str_exn tool_error)))))"

text \<open>
  The handler: an exception that leaves the outer \<^verbatim>\<open>try\<close> is answered with the fixed
  envelope, whose rendering cannot raise.
\<close>

definition rpc_endpoint :: "env \<Rightarrow> (pystr \<times> json) list \<Rightarrow> http_call list \<times> reply" where
  "rpc_endpoint e request =
     (case outer_try e request of
        (calls, Inr response) \<Rightarrow> (calls, response)
      | (calls, Inl x) \<Rightarrow> (calls, JSONResponse 500 internal_error_envelope))"

definition health_endpoint :: "env \<Rightarrow> http_call list \<times> reply" where
  "health_endpoint e =
     ([], Returned (JObj [(str ''status'', JStr (str ''healthy'')),
                          (str ''service'', JStr (str ''mcp-http-bridge'')),
                          (str ''tools_available'', JBool True)]))"

section \<open>The HTTP bridge that calls the tools in process\<close>

text \<open>
  File \<^verbatim>\<open>python/src/mcp_server/http_bridge.py\<close>. The envelope is read in the same
  way; the value a tool returns goes into the success envelope as it is. The two
  context objects are built between the check of the method and the inner \<^verbatim>\<open>try\<close>.
\<close>

definition perform_tool :: "env \<Rightarrow> json \<Rightarrow> exn + tool_call \<Rightarrow> tool_call list \<times> (exn + reply)" where
  "perform_tool e request_id prepared =
     (case prepared of
        Inl x \<Rightarrow> ([], Inl x)
      | Inr c \<Rightarrow>
          ([c],
           case invoke e c of
             Inl x \<Rightarrow> Inl x
           | Inr result \<Rightarrow> Inr (Returned (success_envelope request_id result))))"

definition rag_query_tool :: "json \<Rightarrow> exn + tool_call" where
  "rag_query_tool params =
     and_then (py_get params (str ''query'') (JStr [])) (\<lambda>query.
     and_then (py_get params (str ''source'') JNull) (\<lambda>source.
     and_then (py_get params (str ''match_count'') (JInt 5)) (\<lambda>match_count.
       Inr (Rag_search_knowledge_base query source match_count))))"

definition code_examples_tool :: "json \<Rightarrow> exn + tool_call" where
  "code_examples_tool params =
     and_then (py_get params (str ''query'') (JStr [])) (\<lambda>query.
     and_then (py_get params (str ''source_id'') JNull) (\<lambda>source_id.
     and_then (py_get params (str ''match_count'') (JInt 5)) (\<lambda>match_count.
       Inr (Rag_search_code_examples query source_id match_count))))"

definition manage_project_tool :: "json \<Rightarrow> exn + tool_call" where
  "manage_project_tool params =
     and_then (py_get params (str ''action'') JNull) (\<lambda>action.
     and_then (py_items params) (\<lambda>items.
       Inr (Manage_project action (without [str ''action''] items))))"

definition manage_document_tool :: "json \<Rightarrow> exn + tool_call" where
  "manage_document_tool params =
     and_then (py_get params (str ''action'') JNull) (\<lambda>action.
     and_then (py_get params (str ''project_id'') JNull) (\<lambda>project_id.
     and_then (py_items params) (\<lambda>items.
       Inr (Manage_document action project_id
              (without [str ''action'', str ''project_id''] items)))))"

definition manage_task_tool :: "json \<Rightarrow> exn + tool_call" where
  "manage_task_tool params =
     and_then (py_get params (str ''action'') JNull) (\<lambda>action.
     and_then (py_get params (str ''project_id'') JNull) (\<lambda>project_id.
     and_then (py_items params) (\<lambda>items.
       Inr (Manage_task action project_id
              (without [str ''action'', str ''project_id''] items)))))"

definition dispatch_tools :: "env \<Rightarrow> json \<Rightarrow> json \<Rightarrow> json \<Rightarrow> tool_call list \<times> (exn + reply)" where
  "dispatch_tools e method params request_id =
     (if method = JStr (str ''perform_rag_query'') then
        perform_tool e request_id (rag_query_tool params)
      else if method = JStr (str ''get_available_sources'') then
        perform_tool e request_id (Inr Rag_get_available_sources)
      else if method = JStr (str ''search_code_examples'') then
        perform_tool e request_id (code_examples_tool params)
      else if method = JStr (str ''manage_project'') then
        perform_tool e request_id (manage_project_tool params)
      else if method = JStr (str ''manage_document'') then
        perform_tool e request_id (manage_document_tool params)
      else if method = JStr (str ''manage_task'') then
        perform_tool e request_id (manage_task_tool params)
      else
        ([], json_response e 404
               (error_envelope request_id (- 32601) (not_found_message e method))))"

definition outer_try_tools :: "env \<Rightarrow> (pystr \<times> json) list \<Rightarrow> tool_call list \<times> (exn + reply)" where
  "outer_try_tools e request =
     (let method = dict_get request (str ''method'') JNull;
          params = dict_get request (str ''params'') (JObj []);
          request_id = dict_get request (str ''id'') (JInt 1)
      in if \<not> truthy method then
           ([], json_response e 400
                  (error_envelope request_id (- 32600) (str ''Method not specified'')))
         else
           (case make_context e of
              Some x \<Rightarrow> ([], Inl x)
            | None \<Rightarrow>
                (case dispatch_tools e method params request_id of
                   (calls, Inr response) \<Rightarrow> (calls, Inr response)
                 | (calls, Inl tool_error) \<Rightarrow>
                     (calls, json_response e 500
                               (error_envelope request_id (- 32603) (str_exn tool_error))))))"

definition rpc_endpoint_tools :: "env \<Rightarrow> (pystr \<times> json) list \<Rightarrow> tool_call list \<times> reply" where
  "rpc_endpoint_tools e request =
     (case outer_try_tools e request of
        (calls, Inr response) \<Rightarrow> (calls, response)
      | (calls, Inl x) \<Rightarrow> (calls, JSONResponse 500 internal_error_envelope))"


fun json_field :: "json \<Rightarrow> pystr \<Rightarrow> json option" where
  "json_field (JObj kvs) k = map_of kvs k"
| "json_field v k = None"

text \<open>
  Environments for the examples. In the first, no variable is set, the context objects
  build, and the backend and every tool answer each call with an empty object, whose
  serialisation is \<^verbatim>\<open>{}\<close>. In the second every call fails; in the third every call
  fails with an exception whose text holds a lone surrogate; in the fourth the context
  objects do not build.
\<close>

definition example_render_text :: "json \<Rightarrow> string" where
  "example_render_text c =
     (if finite_floats c then ''surrogates not allowed''
      else ''Out of range float values are not JSON compliant'')"

definition quiet_env :: env where
  "quiet_env =
     \<lparr>getenv = (\<lambda>name. None), send = (\<lambda>c. Inr (JObj [])), dumps = (\<lambda>v. ''{}''),
      py_str = (\<lambda>v. str ''None''), render_text = example_render_text,
      make_context = None, invoke = (\<lambda>c. Inr (JObj []))\<rparr>"



definition no_context_env :: env where
  "no_context_env = quiet_env\<lparr>make_context := Some (Raised (str ''no context''))\<rparr>"

section \<open>The demonstration agent\<close>

text \<open>
  File \<^verbatim>\<open>_user_tools/beads-main/examples/python-agent/agent.py\<close>. The agent drives
  the tracker's command-line program. Everything outside the agent is a world \<open>'w\<close>:
  running a command line changes the world and gives the captured standard output of a
  process that exited with status zero, or the exception \<^verbatim>\<open>subprocess.run\<close> raised
  (with \<^verbatim>\<open>check=True\<close>, a non-zero exit status is one). Every command ends: one
  that never exits is outside the model. Output that is printed is not modelled, and
  \<^verbatim>\<open>current_task\<close> is never assigned after construction. Text is ASCII.
\<close>

datatype agent_exn =
    CalledProcessError
  | JSONDecodeError
  | KeyError string
  | TypeError
  | NoAttribute string
  | OtherError string

record 'w host =
  subprocess_run :: "json list \<Rightarrow> 'w \<Rightarrow> (agent_exn + string) \<times> 'w"
  json_loads :: "string \<Rightarrow> agent_exn + json"
  str_of :: "json \<Rightarrow> pystr"

type_synonym ('w, 'a) action = "'w \<Rightarrow> (agent_exn + 'a) \<times> 'w"

definition seq :: "('w, 'a) action \<Rightarrow> ('a \<Rightarrow> ('w, 'b) action) \<Rightarrow> ('w, 'b) action" where
  "seq m f w = (case m w of (Inl x, w') \<Rightarrow> (Inl x, w') | (Inr a, w') \<Rightarrow> f a w')"

definition ret :: "'a \<Rightarrow> ('w, 'a) action" where
  "ret a w = (Inr a, w)"

definition lift :: "agent_exn + 'a \<Rightarrow> ('w, 'a) action" where
  "lift r w = (r, w)"

text \<open>\<^verbatim>\<open>s.strip()\<close> is empty when every character of \<open>s\<close> is white space.\<close>

definition is_space :: "char \<Rightarrow> bool" where
  "is_space c = (of_char c \<in> {9, 10, 11, 12, 13, 28, 29, 30, 31, 32 :: nat})"

definition blank :: "string \<Rightarrow> bool" where
  "blank s = list_all is_space s"

text \<open>\<^verbatim>\<open>x[k]\<close> with a string key, \<^verbatim>\<open>x.lower()\<close>, and \<^verbatim>\<open>needle in text\<close>.\<close>

fun subscript :: "json \<Rightarrow> string \<Rightarrow> agent_exn + json" where
  "subscript (JObj kvs) k =
     (case map_of kvs (str k) of None \<Rightarrow> Inl (KeyError k) | Some v \<Rightarrow> Inr v)"
| "subscript v k = Inl TypeError"

definition lower_char :: "nat \<Rightarrow> nat" where
  "lower_char c = (if 65 \<le> c \<and> c \<le> 90 then c + 32 else c)"

fun lower :: "json \<Rightarrow> agent_exn + pystr" where
  "lower (JStr s) = Inr (map lower_char s)"
| "lower v = Inl (NoAttribute ''lower'')"

fun starts_with :: "pystr \<Rightarrow> pystr \<Rightarrow> bool" where
  "starts_with [] ys = True"
| "starts_with (x # xs) [] = False"
| "starts_with (x # xs) (y # ys) = (x = y \<and> starts_with xs ys)"

fun contains :: "pystr \<Rightarrow> pystr \<Rightarrow> bool" where
  "contains needle [] = (needle = [])"
| "contains needle (y # ys) = (starts_with needle (y # ys) \<or> contains needle ys)"

definition fstr :: "'w host \<Rightarrow> json \<Rightarrow> pystr" where
  "fstr h v = (case v of JStr s \<Rightarrow> s | _ \<Rightarrow> str_of h v)"

definition run_bd :: "'w host \<Rightarrow> json list \<Rightarrow> ('w, json) action" where
  "run_bd h args =
     seq (subprocess_run h ([JStr (str ''bd'')] @ args @ [JStr (str ''--json'')])) (\<lambda>stdout.
       if \<not> blank stdout then lift (json_loads h stdout) else ret (JObj []))"

definition find_ready_work :: "'w host \<Rightarrow> ('w, json) action" where
  "find_ready_work h =
     seq (run_bd h [JStr (str ''ready''), JStr (str ''--limit''), JStr (str ''1'')]) (\<lambda>ready.
       ret (case ready of JList (x # xs) \<Rightarrow> x | _ \<Rightarrow> JNull))"

definition claim_task :: "'w host \<Rightarrow> json \<Rightarrow> ('w, json) action" where
  "claim_task h issue_id =
     run_bd h [JStr (str ''update''), issue_id, JStr (str ''--status''),
               JStr (str ''in_progress'')]"

definition create_issue :: "'w host \<Rightarrow> pystr \<Rightarrow> pystr \<Rightarrow> int \<Rightarrow> pystr \<Rightarrow> ('w, json) action" where
  "create_issue h title description priority issue_type =
     run_bd h
       ([JStr (str ''create''), JStr title, JStr (str ''-p''), JStr (str_of h (JInt priority)),
         JStr (str ''-t''), JStr issue_type]
        @ (if description \<noteq> [] then [JStr (str ''-d''), JStr description] else []))"

definition link_discovery :: "'w host \<Rightarrow> json \<Rightarrow> json \<Rightarrow> ('w, unit) action" where
  "link_discovery h discovered_id parent_id =
     seq (subprocess_run h
            [JStr (str ''bd''), JStr (str ''dep''), JStr (str ''add''), discovered_id,
             parent_id, JStr (str ''--type''), JStr (str ''discovered-from'')])
       (\<lambda>completed. ret ())"

definition complete_task :: "'w host \<Rightarrow> json \<Rightarrow> pystr \<Rightarrow> ('w, json) action" where
  "complete_task h issue_id reason =
     run_bd h [JStr (str ''close''), issue_id, JStr (str ''--reason''), JStr reason]"

definition simulate_work :: "'w host \<Rightarrow> json \<Rightarrow> ('w, bool) action" where
  "simulate_work h issue =
     seq (lift (subscript issue ''id'')) (\<lambda>issue_id.
     seq (lift (subscript issue ''title'')) (\<lambda>title.
     seq (lift (subscript issue ''priority'')) (\<lambda>priority.
     seq (lift (subscript issue ''issue_type'')) (\<lambda>issue_type.
     seq (lift (lower title)) (\<lambda>lowered.
       if contains (str ''implement'') lowered \<or> contains (str ''add'') lowered then
         seq (create_issue h (str ''Add tests for '' @ fstr h title)
                (str ''While implementing '' @ fstr h issue_id
                   @ str '', noticed missing tests'')
                1 (str ''task'')) (\<lambda>new_issue.
         seq (lift (subscript new_issue ''id'')) (\<lambda>discovered_id.
         seq (link_discovery h discovered_id issue_id) (\<lambda>linked.
           ret True)))
       else ret False)))))"

definition run_once :: "'w host \<Rightarrow> ('w, bool) action" where
  "run_once h =
     seq (find_ready_work h) (\<lambda>issue.
       if \<not> truthy issue then ret False
       else
         seq (lift (subscript issue ''id'')) (\<lambda>issue_id.
         seq (claim_task h issue_id) (\<lambda>claimed.
         seq (simulate_work h issue) (\<lambda>discovered_new_work.
         seq (lift (subscript issue ''id'')) (\<lambda>closing_id.
         seq (complete_task h closing_id (str ''Implemented successfully'')) (\<lambda>closed.
           ret True))))))"

text \<open>
  The loop \<^verbatim>\<open>for i in range(max_iterations)\<close>, by the number of iterations left. The
  result lists what each call of \<open>run_once\<close> gave, in order: the loop goes on after
  \<open>Inr True\<close>, leaves at \<open>Inr False\<close>, and an exception leaves \<open>run\<close> altogether.
\<close>

fun run_loop :: "'w host \<Rightarrow> nat \<Rightarrow> 'w \<Rightarrow> (agent_exn + bool) list \<times> 'w" where
  "run_loop h 0 w = ([], w)"
| "run_loop h (Suc n) w =
     (case run_once h w of
        (Inr True, w') \<Rightarrow> (case run_loop h n w' of (cycles, w'') \<Rightarrow> (Inr True # cycles, w''))
      | (outcome, w') \<Rightarrow> ([outcome], w'))"

text \<open>\<^verbatim>\<open>run(max_iterations=10)\<close>: \<open>None\<close> is the call without an argument.\<close>

definition run :: "'w host \<Rightarrow> int option \<Rightarrow> 'w \<Rightarrow> (agent_exn + bool) list \<times> 'w" where
  "run h arg w =
     (let max_iterations = (case arg of None \<Rightarrow> 10 | Some m \<Rightarrow> m)
      in run_loop h (nat max_iterations) w)"

text \<open>
  A tracker for the examples. The world is the number of open issues. While one is
  open, \<^verbatim>\<open>ready\<close> prints a list holding one issue (its text is abbreviated to
  \<^verbatim>\<open>[issue]\<close>, which the decoder of the example reads as that list); closing takes
  one away; every other command prints nothing.
\<close>

definition open_issue :: json where
  "open_issue =
     JObj [(str ''id'', JStr (str ''bd-1'')), (str ''title'', JStr (str ''Fix login'')),
           (str ''priority'', JInt 1), (str ''issue_type'', JStr (str ''bug''))]"

definition tracker :: "nat host" where
  "tracker =
     \<lparr>subprocess_run = (\<lambda>cmd w.
        if take 2 cmd = [JStr (str ''bd''), JStr (str ''ready'')] then
          (Inr (if w = 0 then ''[]'' else ''[issue]''), w)
        else if take 2 cmd = [JStr (str ''bd''), JStr (str ''close'')] then (Inr [], w - 1)
        else (Inr [], w)),
      json_loads = (\<lambda>s.
        if s = ''[]'' then Inr (JList [])
        else if s = ''[issue]'' then Inr (JList [open_issue])
        else Inl JSONDecodeError),
      str_of = (\<lambda>v. str ''1'')\<rparr>"

section \<open>Text of literals\<close>

lemma str_eq_iff [simp]: "str a = str b \<longleftrightarrow> a = b"
  by (simp add: str_def inj_map_eq_map [OF inj_of_char])

lemma str_empty_iff [simp]: "str a = [] \<longleftrightarrow> a = []"
  by (simp add: str_def)

lemma str_append: "str (a @ b) = str a @ str b"
  by (simp add: str_def)

lemma of_char_less_256: "(of_char c :: nat) < 256"
proof -
  have "(of_char c :: nat) mod 256 < 256"
    by (rule mod_less_divisor) simp
  then show ?thesis
    by (simp only: of_char_mod_256)
qed

lemma of_char_not_surrogate: "\<not> surrogate (of_char c)"
  unfolding surrogate_def using of_char_less_256 [of c] by linarith

lemma encodable_str [simp]: "encodable (str s)"
  by (induction s) (simp_all add: encodable_def str_def of_char_not_surrogate)

lemma encodable_append [simp]: "encodable (a @ b) \<longleftrightarrow> encodable a \<and> encodable b"
  by (simp add: encodable_def)

lemma encodable_str_exn:
  "encodable (str_exn x) \<longleftrightarrow> (case x of Raised m \<Rightarrow> encodable m | _ \<Rightarrow> True)"
  by (cases x) simp_all

section \<open>What the handler returns\<close>



lemma renderable_error_envelope:
  "renderable (error_envelope request_id code message)
     \<longleftrightarrow> renderable request_id \<and> encodable message"
  by (auto simp: renderable_def error_envelope_def)

lemma renderable_internal_error_envelope: "renderable internal_error_envelope"
  by (simp add: renderable_def internal_error_envelope_def)




lemmas bridge_eval =
  rpc_endpoint_def outer_try_def dict_get_def dispatch_def perform_def json_response_def
  success_envelope_def error_envelope_def internal_error_envelope_def server_url_def
  os_getenv_def and_then_def without_def fmt_def not_found_message_def renderable_def

lemmas tools_eval =
  rpc_endpoint_tools_def outer_try_tools_def dispatch_tools_def perform_tool_def






















lemma falsy_outer_try:
  assumes "\<not> truthy (dict_get kvs (str ''method'') JNull)"
  shows "outer_try e kvs =
           ([], json_response e 400
                  (error_envelope (dict_get kvs (str ''id'') (JInt 1)) (- 32600)
                     (str ''Method not specified'')))"
    and "outer_try_tools e kvs =
           ([], json_response e 400
                  (error_envelope (dict_get kvs (str ''id'') (JInt 1)) (- 32600)
                     (str ''Method not specified'')))"
  using assms by (simp_all add: outer_try_def outer_try_tools_def)




lemma outer_try_raises_iff:
  "(\<exists>x. outer_try e request = (calls, Inl x)) \<longleftrightarrow>
     (\<not> truthy (dict_get request (str ''method'') JNull) \<and> calls = []
        \<and> \<not> renderable (dict_get request (str ''id'') (JInt 1)))
     \<or> (truthy (dict_get request (str ''method'') JNull)
        \<and> (\<exists>y. dispatch e (dict_get request (str ''method'') JNull)
                   (dict_get request (str ''params'') (JObj []))
                   (dict_get request (str ''id'') (JInt 1)) = (calls, Inl y)
              \<and> \<not> (renderable (dict_get request (str ''id'') (JInt 1))
                     \<and> encodable (str_exn y))))"
proof (cases "truthy (dict_get request (str ''method'') JNull)")
  case False
  then show ?thesis
    by (auto simp: falsy_outer_try(1) json_response_def renderable_error_envelope)
next
  case True
  obtain cs d where d: "dispatch e (dict_get request (str ''method'') JNull)
                   (dict_get request (str ''params'') (JObj []))
                   (dict_get request (str ''id'') (JInt 1)) = (cs, d)"
    by (cases "dispatch e (dict_get request (str ''method'') JNull)
                   (dict_get request (str ''params'') (JObj []))
                   (dict_get request (str ''id'') (JInt 1))")
  show ?thesis
    using True d
    by (cases d)
       (auto simp: outer_try_def Let_def json_response_def renderable_error_envelope)
qed

section \<open>Requests without a usable method\<close>







section \<open>Unknown methods\<close>




section \<open>The project update and the knowledge-base query\<close>

text \<open>
  C1. The REST bridge at an update of project P1 with a new name: the params hold
  \<^verbatim>\<open>action\<close>, \<^verbatim>\<open>project_id\<close> and \<^verbatim>\<open>name\<close>. One PATCH goes to
  \<^verbatim>\<open>/api/projects/P1\<close>, and its body still holds \<^verbatim>\<open>project_id\<close>: it is not the
  params without \<^verbatim>\<open>action\<close> and \<^verbatim>\<open>project_id\<close>.
\<close>

theorem manage_project_patch_keeps_project_id:
  "fst (rpc_endpoint quiet_env
          [(str ''method'', JStr (str ''manage_project'')),
           (str ''params'', JObj [(str ''action'', JStr (str ''update'')),
                                  (str ''project_id'', JStr (str ''P1'')),
                                  (str ''name'', JStr (str ''X''))])]) =
     [Patch (str ''http://archon-server:8181/api/projects/P1'')
        (JObj [(str ''project_id'', JStr (str ''P1'')), (str ''name'', JStr (str ''X''))])]
   \<and> JObj [(str ''project_id'', JStr (str ''P1'')), (str ''name'', JStr (str ''X''))] \<noteq>
       JObj (without [str ''action'', str ''project_id'']
               [(str ''action'', JStr (str ''update'')), (str ''project_id'', JStr (str ''P1'')),
                (str ''name'', JStr (str ''X''))])"
  by (simp add: bridge_eval manage_project_call_def quiet_env_def str_append [symmetric])

text \<open>
  What the code does at every such request: for a \<^verbatim>\<open>manage_project\<close> request whose
  params are a mapping and whose action is neither "create" nor "get", the REST bridge
  issues one PATCH to \<^verbatim>\<open>/api/projects/{project_id}\<close> whose body is the params without
  the \<^verbatim>\<open>action\<close> key only, in their order. The in-process bridge passes the same
  params without \<^verbatim>\<open>action\<close> to the tool as keyword arguments.
\<close>

lemma manage_project_update_patch:
  assumes "map_of kvs (str ''method'') = Some (JStr (str ''manage_project''))"
    and "dict_get kvs (str ''params'') (JObj []) = JObj ps"
    and "dict_get ps (str ''action'') JNull \<noteq> JStr (str ''create'')"
    and "dict_get ps (str ''action'') JNull \<noteq> JStr (str ''get'')"
  shows "fst (rpc_endpoint e kvs) =
           [Patch (server_url e @ str ''/api/projects/''
                     @ fmt e (dict_get ps (str ''project_id'') (JStr [])))
              (JObj (filter (\<lambda>(k, v). k \<noteq> str ''action'') ps))]
         \<and> (make_context e = None \<longrightarrow>
              fst (rpc_endpoint_tools e kvs) =
                [Manage_project (dict_get ps (str ''action'') JNull)
                   (filter (\<lambda>(k, v). k \<noteq> str ''action'') ps)])"
proof -
  have m: "dict_get kvs (str ''method'') JNull = JStr (str ''manage_project'')"
    using assms(1) by (simp add: dict_get_def)
  have c: "manage_project_call e (JObj ps) =
             Inr (Patch (server_url e @ str ''/api/projects/''
                     @ fmt e (dict_get ps (str ''project_id'') (JStr [])))
              (JObj (filter (\<lambda>(k, v). k \<noteq> str ''action'') ps)))"
    using assms(3,4) by (simp add: manage_project_call_def and_then_def without_def)
  have t: "manage_project_tool (JObj ps) =
             Inr (Manage_project (dict_get ps (str ''action'') JNull)
                   (filter (\<lambda>(k, v). k \<noteq> str ''action'') ps))"
    by (simp add: manage_project_tool_def and_then_def without_def)
  have "fst (rpc_endpoint e kvs) =
           [Patch (server_url e @ str ''/api/projects/''
                     @ fmt e (dict_get ps (str ''project_id'') (JStr [])))
              (JObj (filter (\<lambda>(k, v). k \<noteq> str ''action'') ps))]"
    using m assms(2) c
    by (simp add: rpc_endpoint_def outer_try_def Let_def dispatch_def perform_def
          json_response_def split: sum.splits)
  moreover have "make_context e = None \<longrightarrow>
              fst (rpc_endpoint_tools e kvs) =
                [Manage_project (dict_get ps (str ''action'') JNull)
                   (filter (\<lambda>(k, v). k \<noteq> str ''action'') ps)]"
    using m assms(2) t
    by (simp add: rpc_endpoint_tools_def outer_try_tools_def Let_def dispatch_tools_def
          perform_tool_def json_response_def split: sum.splits)
  ultimately show ?thesis ..
qed

text \<open>
  The update of a task, next to it in the chain, does take the identifiers that went
  into the path out of the body.
\<close>

lemma manage_task_update_patch:
  assumes "dict_get ps (str ''action'') JNull \<noteq> JStr (str ''create'')"
  shows "manage_task_call e (JObj ps) =
           Inr (Patch (server_url e @ str ''/api/projects/''
                         @ fmt e (dict_get ps (str ''project_id'') (JStr [])) @ str ''/tasks/''
                         @ fmt e (dict_get ps (str ''task_id'') (JStr [])))
                  (JObj (filter (\<lambda>(k, v). k \<noteq> str ''action'' \<and> k \<noteq> str ''project_id''
                                           \<and> k \<noteq> str ''task_id'') ps)))"
  using assms by (simp add: manage_task_call_def and_then_def without_def)

text \<open>
  C2, as the claim states it, fails at three requests without \<^verbatim>\<open>match_count\<close>. In the
  REST bridge the backend answers the query with an empty object, and the envelope holds
  the string \<^verbatim>\<open>{}\<close> that serialising the decoded answer gives, not the object. With
  params that are null instead of a mapping, no search is called: the answer is the
  error of the attribute lookup. In the in-process bridge, when building the context
  objects raises, no search is called either.
\<close>

theorem rag_query_result_is_serialised:
  "rpc_endpoint quiet_env
     [(str ''method'', JStr (str ''perform_rag_query'')),
      (str ''params'', JObj [(str ''query'', JStr (str ''foo''))])] =
     ([Post (str ''http://archon-server:8181/api/rag/query'')
         (JObj [(str ''query'', JStr (str ''foo'')), (str ''source_id'', JNull),
                (str ''match_count'', JInt 5)])],
      Returned
        (JObj [(str ''jsonrpc'', JStr (str ''2.0'')), (str ''id'', JInt 1),
               (str ''result'', JStr (str ''{}''))]))
   \<and> send quiet_env
        (Post (str ''http://archon-server:8181/api/rag/query'')
           (JObj [(str ''query'', JStr (str ''foo'')), (str ''source_id'', JNull),
                  (str ''match_count'', JInt 5)]))
       = Inr (JObj [])
   \<and> JStr (str ''{}'') \<noteq> JObj []
   \<and> rpc_endpoint quiet_env
        [(str ''method'', JStr (str ''perform_rag_query'')), (str ''params'', JNull)] =
     ([], JSONResponse 500
            (JObj [(str ''jsonrpc'', JStr (str ''2.0'')), (str ''id'', JInt 1),
                   (str ''error'',
                    JObj [(str ''code'', JInt (- 32603)),
                          (str ''message'',
                           JStr (str (quote ''NoneType'' @ '' object has no attribute ''
                                        @ quote ''get'')))])]))
   \<and> rpc_endpoint_tools no_context_env
        [(str ''method'', JStr (str ''perform_rag_query'')),
         (str ''params'', JObj [(str ''query'', JStr (str ''foo''))])] =
     ([], JSONResponse 500
            (JObj [(str ''jsonrpc'', JStr (str ''2.0'')),
                   (str ''error'', JObj [(str ''code'', JInt (- 32603)),
                                         (str ''message'', JStr (str ''Internal server error''))])]))"
  by (simp add: bridge_eval tools_eval rag_query_call_def quiet_env_def no_context_env_def
        str_append [symmetric])

text \<open>
  C2, amended. For a \<^verbatim>\<open>perform_rag_query\<close> request whose params are a mapping (or are
  absent) and hold no \<^verbatim>\<open>match_count\<close>, the search is called with \<^verbatim>\<open>match_count\<close> 5: by
  the REST bridge always, by the in-process bridge when building the context objects
  raises nothing. When the call succeeds, the REST bridge puts the serialisation
  (\<^verbatim>\<open>json.dumps\<close>) of the decoded answer under \<^verbatim>\<open>result\<close>, as a string, and the
  in-process bridge puts the value the tool returned there unchanged.
\<close>

theorem rag_query_default_match_count:
  assumes "map_of kvs (str ''method'') = Some (JStr (str ''perform_rag_query''))"
    and "dict_get kvs (str ''params'') (JObj []) = JObj ps"
    and "map_of ps (str ''match_count'') = None"
  shows "fst (rpc_endpoint e kvs) =
           [Post (server_url e @ str ''/api/rag/query'')
              (JObj [(str ''query'', dict_get ps (str ''query'') (JStr [])),
                     (str ''source_id'', dict_get ps (str ''source'') JNull),
                     (str ''match_count'', JInt 5)])]
         \<and> (send e (Post (server_url e @ str ''/api/rag/query'')
                (JObj [(str ''query'', dict_get ps (str ''query'') (JStr [])),
                       (str ''source_id'', dict_get ps (str ''source'') JNull),
                       (str ''match_count'', JInt 5)])) = Inr r \<longrightarrow>
              snd (rpc_endpoint e kvs) =
                Returned
                  (JObj [(str ''jsonrpc'', JStr (str ''2.0'')),
                         (str ''id'', dict_get kvs (str ''id'') (JInt 1)),
                         (str ''result'', JStr (str (dumps e r)))]))
         \<and> (make_context e = None \<longrightarrow>
              fst (rpc_endpoint_tools e kvs) =
                [Rag_search_knowledge_base (dict_get ps (str ''query'') (JStr []))
                   (dict_get ps (str ''source'') JNull) (JInt 5)]
              \<and> (invoke e (Rag_search_knowledge_base (dict_get ps (str ''query'') (JStr []))
                     (dict_get ps (str ''source'') JNull) (JInt 5)) = Inr r \<longrightarrow>
                   snd (rpc_endpoint_tools e kvs) =
                     Returned
                       (JObj [(str ''jsonrpc'', JStr (str ''2.0'')),
                              (str ''id'', dict_get kvs (str ''id'') (JInt 1)),
                              (str ''result'', r)])))"
proof -
  have m: "dict_get kvs (str ''method'') JNull = JStr (str ''perform_rag_query'')"
    using assms(1) by (simp add: dict_get_def)
  have mc: "dict_get ps (str ''match_count'') (JInt 5) = JInt 5"
    using assms(3) by (simp add: dict_get_def)
  have c: "rag_query_call e (JObj ps) =
             Inr (Post (server_url e @ str ''/api/rag/query'')
              (JObj [(str ''query'', dict_get ps (str ''query'') (JStr [])),
                     (str ''source_id'', dict_get ps (str ''source'') JNull),
                     (str ''match_count'', JInt 5)]))"
    using mc by (simp add: rag_query_call_def and_then_def)
  have t: "rag_query_tool (JObj ps) =
             Inr (Rag_search_knowledge_base (dict_get ps (str ''query'') (JStr []))
                   (dict_get ps (str ''source'') JNull) (JInt 5))"
    using mc by (simp add: rag_query_tool_def and_then_def)
  have a: "outer_try e kvs =
             (case perform e (dict_get kvs (str ''id'') (JInt 1)) (rag_query_call e (JObj ps)) of
               (calls, Inr response) \<Rightarrow> (calls, Inr response)
             | (calls, Inl tool_error) \<Rightarrow>
                 (calls, json_response e 500
                    (error_envelope (dict_get kvs (str ''id'') (JInt 1)) (- 32603)
                       (str_exn tool_error))))"
    using m assms(2) by (simp add: outer_try_def Let_def dispatch_def)
  have b: "make_context e = None \<Longrightarrow> outer_try_tools e kvs =
             (case perform_tool e (dict_get kvs (str ''id'') (JInt 1)) (rag_query_tool (JObj ps)) of
               (calls, Inr response) \<Rightarrow> (calls, Inr response)
             | (calls, Inl tool_error) \<Rightarrow>
                 (calls, json_response e 500
                    (error_envelope (dict_get kvs (str ''id'') (JInt 1)) (- 32603)
                       (str_exn tool_error))))"
    using m assms(2) by (simp add: outer_try_tools_def Let_def dispatch_tools_def)
  show ?thesis
    unfolding rpc_endpoint_def rpc_endpoint_tools_def a c
    using b t
    by (simp add: perform_def perform_tool_def success_envelope_def json_response_def
         split: sum.splits)
qed

theorem rag_query_default_match_count_witness:
  "map_of [(str ''query'', JStr (str ''foo''))] (str ''match_count'') = None
   \<and> make_context quiet_env = None
   \<and> rpc_endpoint quiet_env
        [(str ''method'', JStr (str ''perform_rag_query'')),
         (str ''params'', JObj [(str ''query'', JStr (str ''foo''))])] =
       ([Post (str ''http://archon-server:8181/api/rag/query'')
           (JObj [(str ''query'', JStr (str ''foo'')), (str ''source_id'', JNull),
                  (str ''match_count'', JInt 5)])],
        Returned
          (JObj [(str ''jsonrpc'', JStr (str ''2.0'')), (str ''id'', JInt 1),
                 (str ''result'', JStr (str ''{}''))]))
   \<and> rpc_endpoint_tools quiet_env
        [(str ''method'', JStr (str ''perform_rag_query'')),
         (str ''params'', JObj [(str ''query'', JStr (str ''foo''))])] =
       ([Rag_search_knowledge_base (JStr (str ''foo'')) JNull (JInt 5)],
        Returned
          (JObj [(str ''jsonrpc'', JStr (str ''2.0'')), (str ''id'', JInt 1),
                 (str ''result'', JObj [])]))"
  using rag_query_default_match_count
          [of "[(str ''method'', JStr (str ''perform_rag_query'')),
                (str ''params'', JObj [(str ''query'', JStr (str ''foo''))])]"
              "[(str ''query'', JStr (str ''foo''))]" quiet_env "JObj []"]
  by (simp add: bridge_eval tools_eval rag_query_call_def rag_query_tool_def quiet_env_def
        str_append [symmetric])

section \<open>The request id\<close>






section \<open>Failures outside the inner handler\<close>

text \<open>
  C6. When an exception leaves the body of the outer \<^verbatim>\<open>try\<close> (lemma
  \<open>outer_try_raises_iff\<close> says when: the construction of the 400 response or of the
  500 response of the inner handler raised), the answer is status 500 with code -32603
  and the fixed message "Internal server error", and the body has no \<^verbatim>\<open>id\<close> field.
\<close>

theorem envelope_failure_is_opaque:
  assumes "outer_try e request = (calls, Inl x)"
  shows "rpc_endpoint e request =
           (calls, JSONResponse 500
                  (JObj [(str ''jsonrpc'', JStr (str ''2.0'')),
                         (str ''error'', JObj [(str ''code'', JInt (- 32603)),
                                               (str ''message'', JStr (str ''Internal server error''))])]))
         \<and> json_field (content (snd (rpc_endpoint e request))) (str ''id'') = None"
  using assms by (simp add: rpc_endpoint_def internal_error_envelope_def)

theorem envelope_failure_is_opaque_witness:
  "outer_try quiet_env [(str ''id'', JFloat PosInf)] =
     ([], Inl (ValueError ''Out of range float values are not JSON compliant''))
   \<and> rpc_endpoint quiet_env [(str ''id'', JFloat PosInf)] =
           ([], JSONResponse 500
                  (JObj [(str ''jsonrpc'', JStr (str ''2.0'')),
                         (str ''error'', JObj [(str ''code'', JInt (- 32603)),
                                               (str ''message'', JStr (str ''Internal server error''))])]))
   \<and> json_field (content (snd (rpc_endpoint quiet_env [(str ''id'', JFloat PosInf)]))) (str ''id'')
       = None"
  using envelope_failure_is_opaque
          [of quiet_env "[(str ''id'', JFloat PosInf)]" "[]"
              "ValueError ''Out of range float values are not JSON compliant''"]
  by (simp add: outer_try_def dict_get_def json_response_def renderable_def error_envelope_def
        quiet_env_def example_render_text_def)

text \<open>
  The in-process bridge has one more statement outside the inner handler, the
  construction of the context objects; when it raises, the answer is the same one.
\<close>

lemma context_failure_is_opaque:
  assumes "truthy (dict_get kvs (str ''method'') JNull)" and "make_context e = Some x"
  shows "rpc_endpoint_tools e kvs = ([], JSONResponse 500 internal_error_envelope)"
  using assms by (simp add: rpc_endpoint_tools_def outer_try_tools_def)

section \<open>The health probe\<close>

text \<open>
  C7. The health endpoint returns the same three fields whatever the environment is,
  and makes no outbound call; the dict goes out with status 200.
\<close>

theorem health_endpoint_constant:
  "health_endpoint e =
     ([], Returned
            (JObj [(str ''status'', JStr (str ''healthy'')),
                   (str ''service'', JStr (str ''mcp-http-bridge'')),
                   (str ''tools_available'', JBool True)]))
   \<and> served (snd (health_endpoint e)) =
       Some (200, JObj [(str ''status'', JStr (str ''healthy'')),
                        (str ''service'', JStr (str ''mcp-http-bridge'')),
                        (str ''tools_available'', JBool True)])"
  by (simp add: health_endpoint_def served_def renderable_def)

section \<open>The agent's loop\<close>

lemma run_once_false_iff:
  "run_once h w = (Inr False, w') \<longleftrightarrow>
     (\<exists>issue. find_ready_work h w = (Inr issue, w') \<and> \<not> truthy issue)"
  by (auto simp: run_once_def seq_def ret_def lift_def
       split: prod.splits sum.splits if_splits)

lemma run_loop_length: "run_loop h n w = (cycles, w') \<Longrightarrow> length cycles \<le> n"
proof (induction n arbitrary: w cycles w')
  case 0
  then show ?case by simp
next
  case (Suc n)
  obtain outcome w1 where once: "run_once h w = (outcome, w1)"
    by (cases "run_once h w")
  show ?case
  proof (cases "outcome = Inr True")
    case True
    obtain cs w2 where rest: "run_loop h n w1 = (cs, w2)"
      by (cases "run_loop h n w1")
    from Suc.prems once True rest have "cycles = Inr True # cs"
      by simp
    moreover from Suc.IH [OF rest] have "length cs \<le> n" .
    ultimately show ?thesis by simp
  next
    case False
    with Suc.prems once have "cycles = [outcome]"
      by (auto split: sum.splits bool.splits)
    then show ?thesis by simp
  qed
qed

lemma run_loop_prefix:
  "run_loop h n w = (cycles, w') \<Longrightarrow> Suc i < length cycles \<Longrightarrow> cycles ! i = Inr True"
proof (induction n arbitrary: w cycles w' i)
  case 0
  then show ?case by simp
next
  case (Suc n)
  obtain outcome w1 where once: "run_once h w = (outcome, w1)"
    by (cases "run_once h w")
  show ?case
  proof (cases "outcome = Inr True")
    case True
    obtain cs w2 where rest: "run_loop h n w1 = (cs, w2)"
      by (cases "run_loop h n w1")
    from Suc.prems(1) once True rest have cyc: "cycles = Inr True # cs"
      by simp
    show ?thesis
    proof (cases i)
      case 0
      with cyc show ?thesis by simp
    next
      case (Suc j)
      with Suc.prems(2) cyc have "Suc j < length cs" by simp
      from Suc.IH [OF rest this] cyc Suc show ?thesis by simp
    qed
  next
    case False
    with Suc.prems(1) once have "cycles = [outcome]"
      by (auto split: sum.splits bool.splits)
    with Suc.prems(2) show ?thesis by simp
  qed
qed

lemma tracker_run: "run tracker (Some 3) (1::nat) = ([Inr True, Inr False], 0)"
  by code_simp

text \<open>
  C8. Whatever the tracker answers, \<open>run\<close> returns after at most \<^verbatim>\<open>max_iterations\<close>
  calls of \<open>run_once\<close> (10 when no argument is given), and every call but the last one
  found work: the first cycle that finds no actionable item, or raises, is the last.
\<close>

theorem run_terminates_within_bound:
  "\<exists>cycles w'. run h arg w = (cycles, w')
     \<and> length cycles \<le> nat (case arg of None \<Rightarrow> 10 | Some m \<Rightarrow> m)
     \<and> (\<forall>i. Suc i < length cycles \<longrightarrow> cycles ! i = Inr True)"
proof -
  let ?n = "nat (case arg of None \<Rightarrow> 10 | Some m \<Rightarrow> m)"
  obtain cycles w' where r: "run_loop h ?n w = (cycles, w')"
    by (cases "run_loop h ?n w")
  have "run h arg w = (cycles, w')"
    using r by (simp add: run_def)
  moreover have "length cycles \<le> ?n"
    using r by (rule run_loop_length)
  moreover have "\<forall>i. Suc i < length cycles \<longrightarrow> cycles ! i = Inr True"
    using r by (blast intro: run_loop_prefix)
  ultimately show ?thesis by blast
qed

theorem run_terminates_within_bound_witness:
  "run tracker (Some 3) (1::nat) = ([Inr True, Inr False], 0)
   \<and> length [Inr True, Inr False :: agent_exn + bool] \<le> nat 3
   \<and> Suc 0 < length [Inr True, Inr False :: agent_exn + bool]
   \<and> [Inr True, Inr False :: agent_exn + bool] ! 0 = Inr True"
  using run_terminates_within_bound [of tracker "Some 3" "1::nat"] tracker_run
  by simp

end
